theory Spec2Isabelle
  imports Main
begin

section \<open>Tenant operator: the data model\<close>

text \<open>
  The operator's own types. Go's \<open>int\<close> fields carry no arithmetic here and are
  modelled as \<open>int\<close>; an omitted field has Go's zero value (the empty string, 0, false,
  the nil map).
\<close>

record TenantQuota =
  CPU :: string
  Memory :: string
  Pods :: int
  PVCs :: int
  Services :: int

record TenantSpec =
  Owner :: string
  CostCenter :: string
  Quota :: TenantQuota
  AllowedIntegrations :: "string list"
  Contacts :: "string \<rightharpoonup> string"

record TenantStatus =
  Phase :: string
  NamespaceCreated :: bool
  QuotaApplied :: bool
  NetworkPolicyApplied :: bool
  RBACApplied :: bool

subsection \<open>The Kubernetes objects the operator builds\<close>

text \<open>
  Only the fields the operator sets are kept; every other field of the Kubernetes types
  stays at its zero value in the source and is left out. A quantity is kept as the text
  handed to \<open>resource.MustParse\<close>; the five texts in the source are valid quantities, so
  the panic of \<open>MustParse\<close> is never reached.
\<close>

datatype Quantity = MustParse string

datatype ResourceName =
    ResourceRequestsCPU
  | ResourceRequestsMemory
  | ResourceLimitsCPU
  | ResourceLimitsMemory
  | ResourcePods
  | ResourcePersistentVolumeClaims
  | ResourceServices

datatype PolicyType = PolicyTypeIngress | PolicyTypeEgress

record ObjectMeta =
  Name :: string
  Namespace :: string
  Labels :: "string \<rightharpoonup> string"

record ResourceQuotaSpec =
  Hard :: "ResourceName \<rightharpoonup> Quantity"

record LabelSelector =
  MatchLabels :: "string \<rightharpoonup> string"

record NetworkPolicySpec =
  PodSelector :: LabelSelector
  PolicyTypes :: "PolicyType list"

record Subject =
  subject_Kind :: string
  subject_Name :: string
  subject_APIGroup :: string

record RoleRef =
  roleref_Kind :: string
  roleref_Name :: string
  roleref_APIGroup :: string

datatype k8s_object =
    NamespaceObj ObjectMeta
  | ResourceQuotaObj ObjectMeta ResourceQuotaSpec
  | NetworkPolicyObj ObjectMeta NetworkPolicySpec
  | RoleBindingObj ObjectMeta "Subject list" RoleRef

datatype Kind = KNamespace | KResourceQuota | KNetworkPolicy | KRoleBinding

fun kind_of :: "k8s_object \<Rightarrow> Kind" where
  "kind_of (NamespaceObj m) = KNamespace"
| "kind_of (ResourceQuotaObj m sp) = KResourceQuota"
| "kind_of (NetworkPolicyObj m sp) = KNetworkPolicy"
| "kind_of (RoleBindingObj m subjects ref) = KRoleBinding"

fun meta_of :: "k8s_object \<Rightarrow> ObjectMeta" where
  "meta_of (NamespaceObj m) = m"
| "meta_of (ResourceQuotaObj m sp) = m"
| "meta_of (NetworkPolicyObj m sp) = m"
| "meta_of (RoleBindingObj m subjects ref) = m"

subsection \<open>Errors of the API client\<close>

text \<open>
  \<open>r.Create\<close> returns Go's \<open>error\<close>: nil, a status error of the API server with its
  reason, or any other error (a network failure, a timeout of the context).
  \<open>errors.IsAlreadyExists\<close> holds of the status errors whose reason is AlreadyExists.
\<close>

datatype StatusReason =
    StatusReasonAlreadyExists
  | StatusReasonNotFound
  | StatusReasonConflict
  | StatusReasonForbidden
  | StatusReasonInvalid
  | StatusReasonTimeout
  | StatusReasonInternalError
  | StatusReasonUnknown

datatype api_error = StatusError StatusReason string | OtherError string

fun IsAlreadyExists :: "api_error \<Rightarrow> bool" where
  "IsAlreadyExists (StatusError reason msg) = (reason = StatusReasonAlreadyExists)"
| "IsAlreadyExists (OtherError msg) = False"

section \<open>The reconciliation pass\<close>

text \<open>
  The request of controller-runtime is a namespaced name; the result is
  \<open>ctrl.Result\<close>, whose zero value asks for no requeue.
\<close>

record Request =
  req_Namespace :: string
  req_Name :: string

record Result =
  Requeue :: bool
  RequeueAfter :: int

definition Result_zero :: Result where
  "Result_zero = \<lparr>Requeue = False, RequeueAfter = 0\<rparr>"

text \<open>
  The embedded \<open>client.Client\<close> is a parameter: a function from the store's state and
  the object to create to the error returned (None is Go's nil) and the store's next
  state. The pass threads the store through its calls and keeps, in order, every create
  call it issued with the answer it got, and every line it logged.
\<close>

type_synonym 's client = "'s \<Rightarrow> k8s_object \<Rightarrow> api_error option \<times> 's"

datatype log_entry =
    Info string "(string \<times> string) list"
  | Error api_error string

record 's pass =
  store :: 's
  creates :: "(k8s_object \<times> api_error option) list"
  logs :: "log_entry list"

definition Create :: "'s client \<Rightarrow> k8s_object \<Rightarrow> 's pass \<Rightarrow> api_error option \<times> 's pass" where
  "Create c obj p =
     (case c (store p) obj of
        (err, s') \<Rightarrow> (err, p\<lparr>store := s', creates := creates p @ [(obj, err)]\<rparr>))"

definition log_Info :: "string \<Rightarrow> (string \<times> string) list \<Rightarrow> 's pass \<Rightarrow> 's pass" where
  "log_Info msg kvs p = p\<lparr>logs := logs p @ [Info msg kvs]\<rparr>"

definition log_Error :: "api_error \<Rightarrow> string \<Rightarrow> 's pass \<Rightarrow> 's pass" where
  "log_Error err msg p = p\<lparr>logs := logs p @ [Error err msg]\<rparr>"

subsection \<open>The four objects, as the source writes them\<close>

definition ns_object :: "string \<Rightarrow> k8s_object" where
  "ns_object tenantName =
     NamespaceObj \<lparr>Name = tenantName, Namespace = '''',
       Labels = [''platform.xyz.com/tenant'' \<mapsto> tenantName,
                 ''istio-injection'' \<mapsto> ''enabled'',
                 ''pod-security.kubernetes.io/enforce'' \<mapsto> ''restricted'']\<rparr>"

definition quota_object :: "string \<Rightarrow> k8s_object" where
  "quota_object tenantName =
     ResourceQuotaObj \<lparr>Name = ''tenant-quota'', Namespace = tenantName, Labels = Map.empty\<rparr>
       \<lparr>Hard = [ResourceRequestsCPU \<mapsto> MustParse ''10'',
                ResourceRequestsMemory \<mapsto> MustParse ''20Gi'',
                ResourceLimitsCPU \<mapsto> MustParse ''20'',
                ResourceLimitsMemory \<mapsto> MustParse ''40Gi'',
                ResourcePods \<mapsto> MustParse ''100'']\<rparr>"

definition netpol_object :: "string \<Rightarrow> k8s_object" where
  "netpol_object tenantName =
     NetworkPolicyObj
       \<lparr>Name = ''default-deny-ingress'', Namespace = tenantName, Labels = Map.empty\<rparr>
       \<lparr>PodSelector = \<lparr>MatchLabels = Map.empty\<rparr>, PolicyTypes = [PolicyTypeIngress]\<rparr>"

definition roleBinding_object :: "string \<Rightarrow> k8s_object" where
  "roleBinding_object tenantName =
     RoleBindingObj
       \<lparr>Name = tenantName @ ''-developers'', Namespace = tenantName, Labels = Map.empty\<rparr>
       [\<lparr>subject_Kind = ''Group'', subject_Name = tenantName @ ''-team'',
         subject_APIGroup = ''rbac.authorization.k8s.io''\<rparr>]
       \<lparr>roleref_Kind = ''ClusterRole'', roleref_Name = ''edit'',
        roleref_APIGroup = ''rbac.authorization.k8s.io''\<rparr>"

subsection \<open>Reconcile\<close>

text \<open>
  The body of \<open>Reconcile\<close> is one straight line of four create calls, each followed by
  \<open>if err != nil { if !errors.IsAlreadyExists(err) { log.Error; return ctrl.Result{}, err } }\<close>.
  It is written here from the last call back to the first, each part ending in the part
  that follows it in the source.
\<close>

definition Reconcile_roleBinding ::
  "'s client \<Rightarrow> string \<Rightarrow> 's pass \<Rightarrow> (Result \<times> api_error option) \<times> 's pass" where
  "Reconcile_roleBinding c tenantName p =
     (case Create c (roleBinding_object tenantName) p of
        (err, p') \<Rightarrow>
          (let rest = ((Result_zero, None),
                       log_Info ''RoleBinding created/exists'' [(''namespace'', tenantName)] p')
           in case err of
                None \<Rightarrow> rest
              | Some e \<Rightarrow>
                  if \<not> IsAlreadyExists e
                  then ((Result_zero, Some e), log_Error e ''Failed to create RoleBinding'' p')
                  else rest))"

definition Reconcile_netpol ::
  "'s client \<Rightarrow> string \<Rightarrow> 's pass \<Rightarrow> (Result \<times> api_error option) \<times> 's pass" where
  "Reconcile_netpol c tenantName p =
     (case Create c (netpol_object tenantName) p of
        (err, p') \<Rightarrow>
          (let rest = Reconcile_roleBinding c tenantName
                        (log_Info ''NetworkPolicy created/exists'' [(''namespace'', tenantName)] p')
           in case err of
                None \<Rightarrow> rest
              | Some e \<Rightarrow>
                  if \<not> IsAlreadyExists e
                  then ((Result_zero, Some e), log_Error e ''Failed to create NetworkPolicy'' p')
                  else rest))"

definition Reconcile_quota ::
  "'s client \<Rightarrow> string \<Rightarrow> 's pass \<Rightarrow> (Result \<times> api_error option) \<times> 's pass" where
  "Reconcile_quota c tenantName p =
     (case Create c (quota_object tenantName) p of
        (err, p') \<Rightarrow>
          (let rest = Reconcile_netpol c tenantName
                        (log_Info ''ResourceQuota created/exists'' [(''namespace'', tenantName)] p')
           in case err of
                None \<Rightarrow> rest
              | Some e \<Rightarrow>
                  if \<not> IsAlreadyExists e
                  then ((Result_zero, Some e), log_Error e ''Failed to create ResourceQuota'' p')
                  else rest))"

definition Reconcile ::
  "'s client \<Rightarrow> 's \<Rightarrow> Request \<Rightarrow> (Result \<times> api_error option) \<times> 's pass" where
  "Reconcile c s req =
     (let p0 = log_Info ''Reconciling Tenant'' [(''name'', req_Name req)]
                 \<lparr>store = s, creates = [], logs = []\<rparr>;
          tenantName = req_Name req
      in case Create c (ns_object tenantName) p0 of
           (err, p') \<Rightarrow>
             (let rest = Reconcile_quota c tenantName
                           (log_Info ''Namespace created/exists'' [(''namespace'', tenantName)] p')
              in case err of
                   None \<Rightarrow> rest
                 | Some e \<Rightarrow>
                     if \<not> IsAlreadyExists e
                     then ((Result_zero, Some e), log_Error e ''Failed to create namespace'' p')
                     else rest))"

text \<open>What a pass returns and leaves behind, by name.\<close>

definition returned_result :: "'s client \<Rightarrow> 's \<Rightarrow> Request \<Rightarrow> Result" where
  "returned_result c s req = fst (fst (Reconcile c s req))"

definition returned_error :: "'s client \<Rightarrow> 's \<Rightarrow> Request \<Rightarrow> api_error option" where
  "returned_error c s req = snd (fst (Reconcile c s req))"

definition create_calls ::
  "'s client \<Rightarrow> 's \<Rightarrow> Request \<Rightarrow> (k8s_object \<times> api_error option) list" where
  "create_calls c s req = creates (snd (Reconcile c s req))"

definition final_store :: "'s client \<Rightarrow> 's \<Rightarrow> Request \<Rightarrow> 's" where
  "final_store c s req = store (snd (Reconcile c s req))"

subsection \<open>The pass as a run over the four objects\<close>

text \<open>
  A create call failed when it returned an error that is not AlreadyExists: the test
  the source makes after each call. The four objects of a pass, in the order of the
  source, and the run that creates a list of objects in order until a call fails; the
  lemmas below show that \<open>Reconcile\<close> is this run on the four objects.
\<close>

definition create_failed :: "api_error option \<Rightarrow> bool" where
  "create_failed r = (case r of None \<Rightarrow> False | Some e \<Rightarrow> \<not> IsAlreadyExists e)"

definition desired_objects :: "string \<Rightarrow> k8s_object list" where
  "desired_objects n = [ns_object n, quota_object n, netpol_object n, roleBinding_object n]"

fun create_in_order ::
  "'s client \<Rightarrow> k8s_object list \<Rightarrow> 's \<Rightarrow>
     api_error option \<times> 's \<times> (k8s_object \<times> api_error option) list" where
  "create_in_order c [] s = (None, s, [])"
| "create_in_order c (obj # objs) s =
     (case c s obj of
        (err, s') \<Rightarrow>
          if create_failed err then (err, s', [(obj, err)])
          else (case create_in_order c objs s' of
                  (err', s'', tr) \<Rightarrow> (err', s'', (obj, err) # tr)))"

definition pass_view :: "(Result \<times> api_error option) \<times> 's pass \<Rightarrow>
    Result \<times> api_error option \<times> 's \<times> (k8s_object \<times> api_error option) list" where
  "pass_view r = (fst (fst r), snd (fst r), store (snd r), creates (snd r))"

definition after_calls :: "(k8s_object \<times> api_error option) list \<Rightarrow>
   api_error option \<times> 's \<times> (k8s_object \<times> api_error option) list \<Rightarrow>
   Result \<times> api_error option \<times> 's \<times> (k8s_object \<times> api_error option) list" where
  "after_calls tr0 r = (case r of (err, s, tr) \<Rightarrow> (Result_zero, err, s, tr0 @ tr))"

text \<open>The specifications of the ResourceQuota objects among a list of objects.\<close>

fun quota_specs :: "k8s_object list \<Rightarrow> ResourceQuotaSpec list" where
  "quota_specs [] = []"
| "quota_specs (ResourceQuotaObj m sp # objs) = sp # quota_specs objs"
| "quota_specs (obj # objs) = quota_specs objs"

section \<open>The cluster behind the client\<close>

text \<open>
  Modelled from the spec: the store behind \<open>client.Client\<close> (the API server) and the
  Tenant object it holds are no part of the repository. The store keeps the Tenant
  objects by name and the child objects by kind, namespace and name. Its create is the
  operation \<open>create(kind, namespaced, fields) \<rightarrow> {Created | AlreadyExists | Error}\<close> of the
  spec, without faults: an object in a namespace that does not exist is refused, an
  object whose key is taken is answered AlreadyExists and the stored object is left as it
  is, any other object is stored. Creating a child object never touches a Tenant.
\<close>

record Tenant =
  Spec :: TenantSpec
  Status :: TenantStatus

type_synonym obj_key = "Kind \<times> string \<times> string"

definition key_of :: "k8s_object \<Rightarrow> obj_key" where
  "key_of obj = (kind_of obj, Namespace (meta_of obj), Name (meta_of obj))"

record cluster =
  tenants :: "string \<rightharpoonup> Tenant"
  objects :: "obj_key \<rightharpoonup> k8s_object"

text \<open>
  Modelled from the spec: the create operation of the external store, which is no part of
  the repository; the three answers are the ones described above.
\<close>

definition cluster_create :: "cluster client" where
  "cluster_create cl obj =
     (if Namespace (meta_of obj) \<noteq> '''' \<and>
         objects cl (KNamespace, '''', Namespace (meta_of obj)) = None
      then (Some (StatusError StatusReasonNotFound (Namespace (meta_of obj))), cl)
      else if objects cl (key_of obj) \<noteq> None
      then (Some (StatusError StatusReasonAlreadyExists (Name (meta_of obj))), cl)
      else (None, cl\<lparr>objects := (objects cl)(key_of obj \<mapsto> obj)\<rparr>))"

text \<open>An object can be created when it has no namespace or its namespace exists.\<close>

definition ns_ready :: "cluster \<Rightarrow> k8s_object \<Rightarrow> bool" where
  "ns_ready cl obj \<longleftrightarrow>
     Namespace (meta_of obj) = '''' \<or> objects cl (KNamespace, '''', Namespace (meta_of obj)) \<noteq> None"

subsection \<open>Concrete inputs\<close>

definition candidate_request :: Request where
  "candidate_request = \<lparr>req_Namespace = '''', req_Name = ''candidate''\<rparr>"

definition unset_quota :: TenantQuota where
  "unset_quota = \<lparr>CPU = '''', Memory = '''', Pods = 0, PVCs = 0, Services = 0\<rparr>"

definition new_status :: TenantStatus where
  "new_status = \<lparr>Phase = '''', NamespaceCreated = False, QuotaApplied = False,
     NetworkPolicyApplied = False, RBACApplied = False\<rparr>"

definition tenant_with_quota :: "TenantQuota \<Rightarrow> Tenant" where
  "tenant_with_quota q =
     \<lparr>Spec = \<lparr>Owner = ''candidate-team'', CostCenter = '''', Quota = q,
               AllowedIntegrations = [], Contacts = Map.empty\<rparr>,
      Status = new_status\<rparr>"

definition fresh_cluster :: "Tenant \<Rightarrow> cluster" where
  "fresh_cluster t = \<lparr>tenants = [''candidate'' \<mapsto> t], objects = Map.empty\<rparr>"

definition refusing_client :: "unit client" where
  "refusing_client s obj = (Some (StatusError StatusReasonForbidden ''forbidden''), s)"

definition quota_refusing_client :: "unit client" where
  "quota_refusing_client s obj =
     (if kind_of obj = KResourceQuota then Some (OtherError ''timeout'') else None, s)"

section \<open>Reconcile is the run over the four objects\<close>

text \<open>
  Each part of the body, seen through its returned error, store and create calls, is the
  run over the objects that are left; the messages logged play no part in it.
\<close>

lemma view_roleBinding:
  "pass_view (Reconcile_roleBinding c n p) =
     after_calls (creates p) (create_in_order c [roleBinding_object n] (store p))"
  by (simp add: pass_view_def after_calls_def Reconcile_roleBinding_def Create_def log_Info_def
      log_Error_def create_failed_def Let_def split: prod.splits option.splits)

lemma view_netpol:
  "pass_view (Reconcile_netpol c n p) =
     after_calls (creates p)
       (create_in_order c [netpol_object n, roleBinding_object n] (store p))"
proof -
  obtain err s' where cs: "c (store p) (netpol_object n) = (err, s')"
    by (cases "c (store p) (netpol_object n)")
  show ?thesis
  proof (cases "create_failed err")
    case True
    then show ?thesis using cs
      by (auto simp: pass_view_def after_calls_def Reconcile_netpol_def Create_def log_Error_def
          create_failed_def Let_def split: option.splits)
  next
    case False
    let ?p = "log_Info ''NetworkPolicy created/exists'' [(''namespace'', n)]
               (p\<lparr>store := s', creates := creates p @ [(netpol_object n, err)]\<rparr>)"
    from False cs have "Reconcile_netpol c n p = Reconcile_roleBinding c n ?p"
      by (auto simp: Reconcile_netpol_def Create_def create_failed_def Let_def
          split: option.splits)
    then have "pass_view (Reconcile_netpol c n p) =
        after_calls (creates ?p) (create_in_order c [roleBinding_object n] (store ?p))"
      by (simp only: view_roleBinding)
    then show ?thesis using False cs
      by (simp add: after_calls_def log_Info_def split: prod.splits)
  qed
qed

lemma view_quota:
  "pass_view (Reconcile_quota c n p) =
     after_calls (creates p)
       (create_in_order c [quota_object n, netpol_object n, roleBinding_object n] (store p))"
proof -
  obtain err s' where cs: "c (store p) (quota_object n) = (err, s')"
    by (cases "c (store p) (quota_object n)")
  show ?thesis
  proof (cases "create_failed err")
    case True
    then show ?thesis using cs
      by (auto simp: pass_view_def after_calls_def Reconcile_quota_def Create_def log_Error_def
          create_failed_def Let_def split: option.splits)
  next
    case False
    let ?p = "log_Info ''ResourceQuota created/exists'' [(''namespace'', n)]
               (p\<lparr>store := s', creates := creates p @ [(quota_object n, err)]\<rparr>)"
    from False cs have "Reconcile_quota c n p = Reconcile_netpol c n ?p"
      by (auto simp: Reconcile_quota_def Create_def create_failed_def Let_def
          split: option.splits)
    then have "pass_view (Reconcile_quota c n p) =
        after_calls (creates ?p) (create_in_order c [netpol_object n, roleBinding_object n] (store ?p))"
      by (simp only: view_netpol)
    then show ?thesis using False cs
      by (simp add: after_calls_def log_Info_def split: prod.splits)
  qed
qed

lemma view_Reconcile:
  "pass_view (Reconcile c s req) =
     after_calls [] (create_in_order c (desired_objects (req_Name req)) s)"
proof -
  let ?n = "req_Name req"
  let ?p0 = "log_Info ''Reconciling Tenant'' [(''name'', ?n)]
               \<lparr>store = s, creates = [], logs = []\<rparr>"
  obtain err s' where cs: "c s (ns_object ?n) = (err, s')"
    by (cases "c s (ns_object ?n)")
  show ?thesis
  proof (cases "create_failed err")
    case True
    then show ?thesis using cs
      by (auto simp: pass_view_def after_calls_def Reconcile_def Create_def log_Error_def log_Info_def
          create_failed_def desired_objects_def Let_def split: option.splits)
  next
    case False
    let ?p = "log_Info ''Namespace created/exists'' [(''namespace'', ?n)]
               (?p0\<lparr>store := s', creates := creates ?p0 @ [(ns_object ?n, err)]\<rparr>)"
    from False cs have "Reconcile c s req = Reconcile_quota c ?n ?p"
      by (auto simp: Reconcile_def Create_def create_failed_def log_Info_def Let_def
          split: option.splits)
    then have "pass_view (Reconcile c s req) =
        after_calls (creates ?p)
          (create_in_order c [quota_object ?n, netpol_object ?n, roleBinding_object ?n] (store ?p))"
      by (simp only: view_quota)
    then show ?thesis using False cs
      by (simp add: after_calls_def log_Info_def desired_objects_def split: prod.splits)
  qed
qed

lemma Reconcile_error:
  "snd (fst (Reconcile c s req)) = fst (create_in_order c (desired_objects (req_Name req)) s)"
  using view_Reconcile [of c s req]
  by (cases "create_in_order c (desired_objects (req_Name req)) s")
     (simp add: pass_view_def after_calls_def)

lemma Reconcile_store:
  "store (snd (Reconcile c s req)) =
     fst (snd (create_in_order c (desired_objects (req_Name req)) s))"
  using view_Reconcile [of c s req]
  by (cases "create_in_order c (desired_objects (req_Name req)) s")
     (simp add: pass_view_def after_calls_def)

lemma Reconcile_creates:
  "creates (snd (Reconcile c s req)) =
     snd (snd (create_in_order c (desired_objects (req_Name req)) s))"
  using view_Reconcile [of c s req]
  by (cases "create_in_order c (desired_objects (req_Name req)) s")
     (simp add: pass_view_def after_calls_def)

lemma Reconcile_result: "fst (fst (Reconcile c s req)) = Result_zero"
  using view_Reconcile [of c s req]
  by (cases "create_in_order c (desired_objects (req_Name req)) s")
     (simp add: pass_view_def after_calls_def)

lemma cio_prefix:
  "create_in_order c objs s = (err, s', tr) \<Longrightarrow> map fst tr = take (length tr) objs"
  by (induction objs arbitrary: s err s' tr) (auto split: prod.splits if_splits)

lemma cio_length:
  "create_in_order c objs s = (err, s', tr) \<Longrightarrow> length tr \<le> length objs"
  by (induction objs arbitrary: s err s' tr) (auto split: prod.splits if_splits)

lemma cio_store:
  "create_in_order c objs s = (err, s', tr) \<Longrightarrow>
     s' = foldl (\<lambda>s obj. snd (c s obj)) s (map fst tr)"
  by (induction objs arbitrary: s err s' tr) (auto split: prod.splits if_splits)

lemma cio_ok:
  "create_in_order c objs s = (None, s', tr) \<Longrightarrow>
     length tr = length objs \<and> (\<forall>x \<in> set tr. \<not> create_failed (snd x))"
proof (induction objs arbitrary: s s' tr)
  case Nil
  then show ?case by simp
next
  case (Cons a objs)
  obtain err s1 where cs: "c s a = (err, s1)" by (cases "c s a")
  obtain err2 s2 tr2 where rest: "create_in_order c objs s1 = (err2, s2, tr2)"
    by (cases "create_in_order c objs s1")
  have soft: "\<not> create_failed err"
    using cs Cons.prems by (auto simp: create_failed_def split: if_splits)
  with cs rest Cons.prems have eqs: "err2 = None" "tr = (a, err) # tr2"
    by auto
  from Cons.IH [of s1 s2 tr2] rest eqs soft show ?case
    by simp
qed

lemma cio_err:
  "create_in_order c objs s = (Some e, s', tr) \<Longrightarrow>
     \<not> IsAlreadyExists e \<and>
     (\<exists>pre obj. tr = pre @ [(obj, Some e)] \<and> (\<forall>x \<in> set pre. \<not> create_failed (snd x)))"
proof (induction objs arbitrary: s s' tr)
  case Nil
  then show ?case by simp
next
  case (Cons a objs)
  obtain err s1 where cs: "c s a = (err, s1)" by (cases "c s a")
  show ?case
  proof (cases "create_failed err")
    case True
    with cs Cons.prems show ?thesis
      by (auto simp: create_failed_def split: option.splits)
  next
    case False
    obtain err2 s2 tr2 where rest: "create_in_order c objs s1 = (err2, s2, tr2)"
      by (cases "create_in_order c objs s1")
    with cs False Cons.prems have eqs: "err2 = Some e" "tr = (a, err) # tr2"
      by auto
    from Cons.IH [of s1 s2 tr2] rest eqs obtain pre obj where
      ne: "\<not> IsAlreadyExists e" and
      tr2: "tr2 = pre @ [(obj, Some e)]" and
      soft: "\<forall>x \<in> set pre. \<not> create_failed (snd x)"
      by blast
    have "tr = ((a, err) # pre) @ [(obj, Some e)]"
      using eqs tr2 by simp
    moreover have "\<forall>x \<in> set ((a, err) # pre). \<not> create_failed (snd x)"
      using False soft by simp
    ultimately show ?thesis using ne by blast
  qed
qed

lemma cio_error_iff:
  assumes run: "create_in_order c objs s = (err, s', tr)"
  shows "err = None \<longleftrightarrow> (\<forall>x \<in> set tr. \<not> create_failed (snd x))"
proof (cases err)
  case None
  with cio_ok [of c objs s s' tr] run show ?thesis by blast
next
  case (Some e)
  with cio_err [of c objs s e s' tr] run obtain pre obj where
    "\<not> IsAlreadyExists e" "tr = pre @ [(obj, Some e)]" by blast
  then have "(obj, Some e) \<in> set tr" "create_failed (snd (obj, Some e))"
    by (simp_all add: create_failed_def)
  with Some show ?thesis by blast
qed

lemma pass_run:
  "\<exists>err s' tr. create_in_order c (desired_objects (req_Name req)) s = (err, s', tr) \<and>
     returned_error c s req = err \<and> final_store c s req = s' \<and> create_calls c s req = tr"
  by (cases "create_in_order c (desired_objects (req_Name req)) s")
     (simp add: returned_error_def final_store_def create_calls_def
        Reconcile_error Reconcile_store Reconcile_creates)

lemma desired_kinds:
  "map kind_of (desired_objects n) = [KNamespace, KResourceQuota, KNetworkPolicy, KRoleBinding]"
  by (simp add: desired_objects_def ns_object_def quota_object_def netpol_object_def
      roleBinding_object_def)

lemma cio_kinds:
  assumes "create_in_order c (desired_objects n) s = (err, s', tr)"
  shows "map (kind_of \<circ> fst) tr =
           take (length tr) [KNamespace, KResourceQuota, KNetworkPolicy, KRoleBinding]"
proof -
  have "map (kind_of \<circ> fst) tr = map kind_of (map fst tr)" by simp
  also have "\<dots> = take (length tr) (map kind_of (desired_objects n))"
    using cio_prefix [OF assms] by (metis take_map)
  finally show ?thesis by (simp only: desired_kinds)
qed

lemma cio_first:
  "create_in_order c (obj # objs) s = (err, s', tr) \<Longrightarrow>
     \<exists>rest. tr = (obj, fst (c s obj)) # rest"
  by (auto split: prod.splits if_splits)

subsection \<open>What a run leaves unchanged, and what it creates\<close>

lemma cio_frame:
  assumes "\<forall>s obj. f (snd (c s obj)) = f s"
  shows "create_in_order c objs s = (err, s', tr) \<Longrightarrow> f s' = f s"
proof (induction objs arbitrary: s err s' tr)
  case Nil
  then show ?case by simp
next
  case (Cons a objs)
  obtain r s1 where cs: "c s a = (r, s1)" by (cases "c s a")
  with assms have f1: "f s1 = f s" by (metis snd_conv)
  show ?case
  proof (cases "create_failed r")
    case True
    with cs Cons.prems f1 show ?thesis by simp
  next
    case False
    obtain err2 s2 tr2 where rest: "create_in_order c objs s1 = (err2, s2, tr2)"
      by (cases "create_in_order c objs s1")
    with cs False Cons.prems have "s' = s2" by simp
    with Cons.IH [OF rest] f1 show ?thesis by simp
  qed
qed

lemma cio_related:
  assumes step: "\<forall>a b obj. R a b \<longrightarrow> fst (c a obj) = fst (c b obj) \<and> R (snd (c a obj)) (snd (c b obj))"
  shows "R s1 s2 \<Longrightarrow>
   create_in_order c objs s1 = (e1, s1', t1) \<Longrightarrow>
   create_in_order c objs s2 = (e2, s2', t2) \<Longrightarrow>
     e1 = e2 \<and> t1 = t2 \<and> R s1' s2'"
proof (induction objs arbitrary: s1 s2 e1 s1' t1 e2 s2' t2)
  case Nil
  then show ?case by simp
next
  case (Cons a objs)
  obtain r1 c1 where a1: "c s1 a = (r1, c1)" by (cases "c s1 a")
  obtain r2 c2 where a2: "c s2 a = (r2, c2)" by (cases "c s2 a")
  from step Cons.prems(1) have "fst (c s1 a) = fst (c s2 a) \<and> R (snd (c s1 a)) (snd (c s2 a))"
    by blast
  with a1 a2 have same: "r1 = r2" "R c1 c2" by simp_all
  show ?case
  proof (cases "create_failed r1")
    case True
    with a1 a2 same Cons.prems show ?thesis by auto
  next
    case False
    obtain e1' s1'' t1' where rest1: "create_in_order c objs c1 = (e1', s1'', t1')"
      by (cases "create_in_order c objs c1")
    obtain e2' s2'' t2' where rest2: "create_in_order c objs c2 = (e2', s2'', t2')"
      by (cases "create_in_order c objs c2")
    from Cons.IH [OF same(2) rest1 rest2]
    have "e1' = e2'" "t1' = t2'" "R s1'' s2''" by simp_all
    with a1 a2 same False rest1 rest2 Cons.prems show ?thesis by auto
  qed
qed

lemma run_ok_length:
  assumes "create_in_order c (desired_objects n) s = (None, s', tr)"
  shows "length tr = 4"
proof -
  from cio_ok [OF assms] have "length tr = length (desired_objects n)" by simp
  then show ?thesis by (simp add: desired_objects_def)
qed

lemma run_first:
  "create_in_order c (desired_objects n) s = (err, s', tr) \<Longrightarrow>
     \<exists>rest. tr = (ns_object n, fst (c s (ns_object n))) # rest \<and>
       (\<forall>x \<in> set rest. kind_of (fst x) \<noteq> KNamespace)"
proof -
  assume run: "create_in_order c (desired_objects n) s = (err, s', tr)"
  then obtain rest where tr: "tr = (ns_object n, fst (c s (ns_object n))) # rest"
    unfolding desired_objects_def by (blast dest: cio_first)
  from cio_kinds [OF run] tr
  have "map (kind_of \<circ> fst) rest =
          take (length rest) [KResourceQuota, KNetworkPolicy, KRoleBinding]"
    by simp
  then have "set (map (kind_of \<circ> fst) rest) \<subseteq> {KResourceQuota, KNetworkPolicy, KRoleBinding}"
    using set_take_subset [of "length rest" "[KResourceQuota, KNetworkPolicy, KRoleBinding]"]
    by simp
  then have "\<forall>x \<in> set rest. kind_of (fst x) \<noteq> KNamespace" by auto
  with tr show ?thesis by blast
qed

lemma run_quota_specs:
  assumes run: "create_in_order c (desired_objects n) s = (err, s', tr)"
  shows "quota_specs (map fst tr) =
           (if create_failed (fst (c s (ns_object n))) then []
            else [\<lparr>Hard = [ResourceRequestsCPU \<mapsto> MustParse ''10'',
                           ResourceRequestsMemory \<mapsto> MustParse ''20Gi'',
                           ResourceLimitsCPU \<mapsto> MustParse ''20'',
                           ResourceLimitsMemory \<mapsto> MustParse ''40Gi'',
                           ResourcePods \<mapsto> MustParse ''100'']\<rparr>])"
proof -
  let ?tail = "[quota_object n, netpol_object n, roleBinding_object n]"
  obtain r s1 where cs: "c s (ns_object n) = (r, s1)" by (cases "c s (ns_object n)")
  show ?thesis
  proof (cases "create_failed r")
    case True
    with cs run have "tr = [(ns_object n, r)]" by (auto simp: desired_objects_def)
    with True cs show ?thesis by (simp add: ns_object_def)
  next
    case False
    obtain e2 s2 t2 where rest: "create_in_order c ?tail s1 = (e2, s2, t2)"
      by (cases "create_in_order c ?tail s1")
    with cs False run have tr: "tr = (ns_object n, r) # t2" by (auto simp: desired_objects_def)
    from cio_first [OF rest] obtain t3 where t2: "t2 = (quota_object n, fst (c s1 (quota_object n))) # t3"
      by blast
    from cio_prefix [OF rest] t2
    have "map fst t3 = take (length t3) [netpol_object n, roleBinding_object n]" by simp
    then have "quota_specs (map fst t3) = []"
      by (simp add: take_Cons' netpol_object_def roleBinding_object_def)
    with tr t2 False cs show ?thesis by (simp add: ns_object_def quota_object_def)
  qed
qed

section \<open>The pass on the cluster\<close>

lemma cluster_create_tenants: "tenants (snd (cluster_create cl obj)) = tenants cl"
  by (simp add: cluster_create_def)

lemma cluster_create_same_objects:
  "objects cl1 = objects cl2 \<Longrightarrow>
     fst (cluster_create cl1 obj) = fst (cluster_create cl2 obj) \<and>
     objects (snd (cluster_create cl1 obj)) = objects (snd (cluster_create cl2 obj))"
  by (simp add: cluster_create_def)

lemma cluster_create_step:
  assumes "ns_ready cl obj" and "cluster_create cl obj = (r, cl')"
  shows "\<not> create_failed r" and "objects cl' (key_of obj) \<noteq> None"
    and "tenants cl' = tenants cl" and "\<And>k. objects cl k \<noteq> None \<Longrightarrow> objects cl' k \<noteq> None"
  using assms
  by (auto simp: ns_ready_def cluster_create_def create_failed_def split: if_splits)

lemma cluster_create_present:
  assumes "ns_ready cl obj" and "objects cl (key_of obj) \<noteq> None"
  shows "cluster_create cl obj =
           (Some (StatusError StatusReasonAlreadyExists (Name (meta_of obj))), cl)"
  using assms by (auto simp: ns_ready_def cluster_create_def)

lemma cluster_run_present:
  "\<forall>obj \<in> set objs. ns_ready cl obj \<and> objects cl (key_of obj) \<noteq> None \<Longrightarrow>
     create_in_order cluster_create objs cl =
       (None, cl, map (\<lambda>obj. (obj, Some (StatusError StatusReasonAlreadyExists
                                             (Name (meta_of obj))))) objs)"
  by (induction objs) (simp_all add: cluster_create_present create_failed_def)

lemma cluster_run_in_namespace:
  "objects cl (KNamespace, '''', n) \<noteq> None \<Longrightarrow>
   \<forall>obj \<in> set objs. Namespace (meta_of obj) = n \<Longrightarrow>
   create_in_order cluster_create objs cl = (err, cl', tr) \<Longrightarrow>
     err = None \<and> tenants cl' = tenants cl \<and>
     (\<forall>k. objects cl k \<noteq> None \<longrightarrow> objects cl' k \<noteq> None) \<and>
     (\<forall>obj \<in> set objs. objects cl' (key_of obj) \<noteq> None)"
proof (induction objs arbitrary: cl err cl' tr)
  case Nil
  then show ?case by simp
next
  case (Cons a objs)
  obtain r c1 where a1: "cluster_create cl a = (r, c1)" by (cases "cluster_create cl a")
  have ra: "ns_ready cl a" using Cons.prems(1,2) by (simp add: ns_ready_def)
  note st = cluster_create_step [OF ra a1]
  obtain e2 c2 t2 where rest: "create_in_order cluster_create objs c1 = (e2, c2, t2)"
    by (cases "create_in_order cluster_create objs c1")
  with a1 st(1) Cons.prems(3) have eqs: "err = e2" "cl' = c2" by simp_all
  have ns1: "objects c1 (KNamespace, '''', n) \<noteq> None" using st(4) Cons.prems(1) by blast
  have in_n: "\<forall>obj \<in> set objs. Namespace (meta_of obj) = n" using Cons.prems(2) by simp
  from Cons.IH [OF ns1 in_n rest]
  have ih: "e2 = None" "tenants c2 = tenants c1"
    "\<forall>k. objects c1 k \<noteq> None \<longrightarrow> objects c2 k \<noteq> None"
    "\<forall>obj \<in> set objs. objects c2 (key_of obj) \<noteq> None" by simp_all
  have "objects c2 (key_of a) \<noteq> None" using ih(3) st(2) by blast
  moreover have "\<forall>k. objects cl k \<noteq> None \<longrightarrow> objects c2 k \<noteq> None"
    using ih(3) st(4) by blast
  ultimately show ?case using ih(1,2,4) st(3) eqs by simp
qed

lemma cluster_pass:
  assumes "create_in_order cluster_create (desired_objects n) cl = (err, cl', tr)"
  shows "err = None" and "tenants cl' = tenants cl"
    and "\<forall>obj \<in> set (desired_objects n). ns_ready cl' obj \<and> objects cl' (key_of obj) \<noteq> None"
proof -
  let ?tail = "[quota_object n, netpol_object n, roleBinding_object n]"
  obtain r c1 where a1: "cluster_create cl (ns_object n) = (r, c1)"
    by (cases "cluster_create cl (ns_object n)")
  have ra: "ns_ready cl (ns_object n)" by (simp add: ns_ready_def ns_object_def)
  note st = cluster_create_step [OF ra a1]
  have k: "key_of (ns_object n) = (KNamespace, '''', n)" by (simp add: key_of_def ns_object_def)
  obtain e2 c2 t2 where rest: "create_in_order cluster_create ?tail c1 = (e2, c2, t2)"
    by (cases "create_in_order cluster_create ?tail c1")
  with a1 st(1) assms have eqs: "err = e2" "cl' = c2" by (simp_all add: desired_objects_def)
  have ns1: "objects c1 (KNamespace, '''', n) \<noteq> None" using st(2) k by simp
  have in_n: "\<forall>obj \<in> set ?tail. Namespace (meta_of obj) = n"
    by (simp add: quota_object_def netpol_object_def roleBinding_object_def)
  from cluster_run_in_namespace [OF ns1 in_n rest]
  have ih: "e2 = None" "tenants c2 = tenants c1"
    "\<forall>k. objects c1 k \<noteq> None \<longrightarrow> objects c2 k \<noteq> None"
    "\<forall>obj \<in> set ?tail. objects c2 (key_of obj) \<noteq> None" by simp_all
  show "err = None" using ih eqs by simp
  show "tenants cl' = tenants cl" using ih st eqs by simp
  have ns2: "objects c2 (KNamespace, '''', n) \<noteq> None" using ih(3) ns1 by blast
  have "\<forall>obj \<in> set (desired_objects n). ns_ready c2 obj"
    using ns2 by (simp add: desired_objects_def ns_ready_def ns_object_def quota_object_def
        netpol_object_def roleBinding_object_def)
  moreover have "\<forall>obj \<in> set (desired_objects n). objects c2 (key_of obj) \<noteq> None"
    using ih(4) ns2 k by (simp add: desired_objects_def)
  ultimately show "\<forall>obj \<in> set (desired_objects n).
      ns_ready cl' obj \<and> objects cl' (key_of obj) \<noteq> None"
    using eqs by simp
qed

text \<open>
  The pass for \<open>candidate\<close> on a cluster that holds nothing but the Tenant: every
  create call is answered nil and the four objects are stored.
\<close>

lemma fresh_pass:
  "create_in_order cluster_create (desired_objects ''candidate'') (fresh_cluster t) =
     (None,
      \<lparr>tenants = [''candidate'' \<mapsto> t],
       objects = [key_of (ns_object ''candidate'') \<mapsto> ns_object ''candidate'',
                  key_of (quota_object ''candidate'') \<mapsto> quota_object ''candidate'',
                  key_of (netpol_object ''candidate'') \<mapsto> netpol_object ''candidate'',
                  key_of (roleBinding_object ''candidate'') \<mapsto> roleBinding_object ''candidate'']\<rparr>,
      [(ns_object ''candidate'', None), (quota_object ''candidate'', None),
       (netpol_object ''candidate'', None), (roleBinding_object ''candidate'', None)])"
  by (simp add: desired_objects_def cluster_create_def key_of_def create_failed_def ns_object_def
      quota_object_def netpol_object_def roleBinding_object_def fresh_cluster_def)

lemmas pass_eval = create_calls_def returned_error_def final_store_def returned_result_def
  Reconcile_creates Reconcile_error Reconcile_store Reconcile_result desired_objects_def
  cluster_create_def key_of_def create_failed_def ns_object_def quota_object_def
  netpol_object_def roleBinding_object_def fresh_cluster_def candidate_request_def
  tenant_with_quota_def

section \<open>The claims\<close>

text \<open>
  C1. If the Namespace create returns an error that is not AlreadyExists, the pass
  returns that error, and the Namespace create is the only create call of the pass: no
  call is issued for the ResourceQuota, the NetworkPolicy or the RoleBinding. The
  Namespace create is the first call of the pass, so its answer is the client's answer in
  the store's state at the start.
\<close>

theorem namespace_failure_aborts:
  assumes "fst (c s (ns_object (req_Name req))) = Some e" and "\<not> IsAlreadyExists e"
  shows "returned_error c s req = Some e \<and>
         create_calls c s req = [(ns_object (req_Name req), Some e)] \<and>
         map (kind_of \<circ> fst) (create_calls c s req) = [KNamespace]"
proof -
  obtain s' where cs: "c s (ns_object (req_Name req)) = (Some e, s')"
    using assms(1) by (cases "c s (ns_object (req_Name req))") simp
  have "create_in_order c (desired_objects (req_Name req)) s =
          (Some e, s', [(ns_object (req_Name req), Some e)])"
    using cs assms(2) by (simp add: desired_objects_def create_failed_def)
  then show ?thesis
    by (simp add: returned_error_def create_calls_def Reconcile_error Reconcile_creates
        ns_object_def)
qed

text \<open>
  A client that refuses every create with Forbidden: the pass for \<open>candidate\<close> returns
  that error after the Namespace call.
\<close>

theorem namespace_failure_aborts_witness:
  "fst (refusing_client () (ns_object (req_Name candidate_request))) =
     Some (StatusError StatusReasonForbidden ''forbidden'') \<and>
   \<not> IsAlreadyExists (StatusError StatusReasonForbidden ''forbidden'') \<and>
   returned_error refusing_client () candidate_request =
     Some (StatusError StatusReasonForbidden ''forbidden'') \<and>
   map (kind_of \<circ> fst) (create_calls refusing_client () candidate_request) = [KNamespace]"
  using namespace_failure_aborts [of refusing_client "()" candidate_request
      "StatusError StatusReasonForbidden ''forbidden''"]
  by (simp add: refusing_client_def ns_object_def)

text \<open>
  C2. On the cluster, two passes in a row for the same request: both return nil, the
  second pass leaves the store exactly as the first left it (same objects with the same
  fields, none added), submits the same four objects, and every one of its four create
  calls is answered AlreadyExists, which the pass takes as success.
\<close>

theorem second_pass_already_present:
  "returned_error cluster_create cl req = None \<and>
   returned_error cluster_create (final_store cluster_create cl req) req = None \<and>
   final_store cluster_create (final_store cluster_create cl req) req =
     final_store cluster_create cl req \<and>
   map fst (create_calls cluster_create (final_store cluster_create cl req) req) =
     map fst (create_calls cluster_create cl req) \<and>
   length (create_calls cluster_create (final_store cluster_create cl req) req) = 4 \<and>
   (\<forall>x \<in> set (create_calls cluster_create (final_store cluster_create cl req) req).
      \<exists>e. snd x = Some e \<and> IsAlreadyExists e)"
proof -
  let ?objs = "desired_objects (req_Name req)"
  from pass_run [of cluster_create req cl] obtain err cl' tr where
    run: "create_in_order cluster_create ?objs cl = (err, cl', tr)" and
    eqs: "returned_error cluster_create cl req = err" "final_store cluster_create cl req = cl'"
      "create_calls cluster_create cl req = tr"
    by blast
  note first = cluster_pass [OF run]
  have second: "create_in_order cluster_create ?objs cl' =
      (None, cl', map (\<lambda>obj. (obj, Some (StatusError StatusReasonAlreadyExists
                                              (Name (meta_of obj))))) ?objs)"
    using first(3) by (rule cluster_run_present)
  from pass_run [of cluster_create req cl'] second
  have eqs2: "returned_error cluster_create cl' req = None"
    "final_store cluster_create cl' req = cl'"
    "create_calls cluster_create cl' req =
       map (\<lambda>obj. (obj, Some (StatusError StatusReasonAlreadyExists (Name (meta_of obj))))) ?objs"
    by simp_all
  have len: "length tr = 4" "map fst tr = ?objs"
    using cio_ok [of cluster_create ?objs cl cl' tr] cio_prefix [OF run] run first(1)
    by (simp_all add: desired_objects_def)
  show ?thesis
    unfolding eqs eqs2 using first(1) len
    by (simp add: comp_def desired_objects_def)
qed

text \<open>
  On the cluster that holds only the Tenant, the first pass creates all four objects and
  the second is answered AlreadyExists four times.
\<close>

theorem second_pass_already_present_witness:
  "map snd (create_calls cluster_create (fresh_cluster (tenant_with_quota unset_quota))
       candidate_request) = [None, None, None, None] \<and>
   map snd (create_calls cluster_create
       (final_store cluster_create (fresh_cluster (tenant_with_quota unset_quota))
          candidate_request) candidate_request) =
     [Some (StatusError StatusReasonAlreadyExists ''candidate''),
      Some (StatusError StatusReasonAlreadyExists ''tenant-quota''),
      Some (StatusError StatusReasonAlreadyExists ''default-deny-ingress''),
      Some (StatusError StatusReasonAlreadyExists ''candidate-developers'')] \<and>
   final_store cluster_create
       (final_store cluster_create (fresh_cluster (tenant_with_quota unset_quota))
          candidate_request) candidate_request =
     final_store cluster_create (fresh_cluster (tenant_with_quota unset_quota)) candidate_request"
  using second_pass_already_present
    [of "fresh_cluster (tenant_with_quota unset_quota)" candidate_request]
  by (simp add: pass_eval)

text \<open>
  C3. For a Tenant whose quota fields are all unset, the ResourceQuota of the pass
  carries exactly the platform defaults: requests.cpu 10, requests.memory 20Gi,
  limits.cpu 20, limits.memory 40Gi, pods 100. The pass submits one ResourceQuota, unless
  the Namespace create failed, and then none. The client is any client on the cluster.
\<close>

theorem unset_quota_gets_defaults:
  assumes "tenants cl (req_Name req) = Some t" and "Quota (Spec t) = unset_quota"
  shows "quota_specs (map fst (create_calls c cl req)) =
           (if create_failed (fst (c cl (ns_object (req_Name req)))) then []
            else [\<lparr>Hard = [ResourceRequestsCPU \<mapsto> MustParse ''10'',
                           ResourceRequestsMemory \<mapsto> MustParse ''20Gi'',
                           ResourceLimitsCPU \<mapsto> MustParse ''20'',
                           ResourceLimitsMemory \<mapsto> MustParse ''40Gi'',
                           ResourcePods \<mapsto> MustParse ''100'']\<rparr>])"
proof -
  from pass_run [of c req cl] obtain err s' tr where
    run: "create_in_order c (desired_objects (req_Name req)) cl = (err, s', tr)" and
    eqs: "create_calls c cl req = tr"
    by blast
  from run_quota_specs [OF run] eqs show ?thesis by simp
qed

text \<open>
  The Tenant \<open>candidate\<close> with no quota field set, on the cluster.
\<close>

theorem unset_quota_gets_defaults_witness:
  "tenants (fresh_cluster (tenant_with_quota unset_quota)) (req_Name candidate_request) =
     Some (tenant_with_quota unset_quota) \<and>
   Quota (Spec (tenant_with_quota unset_quota)) = unset_quota \<and>
   map (\<lambda>sp. (Hard sp ResourceRequestsCPU, Hard sp ResourceRequestsMemory,
              Hard sp ResourceLimitsCPU, Hard sp ResourceLimitsMemory, Hard sp ResourcePods))
     (quota_specs (map fst (create_calls cluster_create
        (fresh_cluster (tenant_with_quota unset_quota)) candidate_request))) =
     [(Some (MustParse ''10''), Some (MustParse ''20Gi''), Some (MustParse ''20''),
       Some (MustParse ''40Gi''), Some (MustParse ''100''))]"
  using unset_quota_gets_defaults [of "fresh_cluster (tenant_with_quota unset_quota)"
      candidate_request "tenant_with_quota unset_quota" cluster_create]
  by (simp add: fresh_cluster_def candidate_request_def tenant_with_quota_def
      cluster_create_def ns_object_def key_of_def create_failed_def)

text \<open>
  C4, as the claim states it, fails: the Tenant \<open>candidate\<close> sets pods to 200 and no
  other quota field, and the ResourceQuota of the pass has pods 100.
\<close>

theorem pods_override_counterexample:
  "map_option (Pods \<circ> Quota \<circ> Spec)
     (tenants (fresh_cluster (tenant_with_quota (unset_quota\<lparr>Pods := 200\<rparr>))) ''candidate'') =
     Some 200 \<and>
   map (\<lambda>sp. Hard sp ResourcePods)
     (quota_specs (map fst (create_calls cluster_create
        (fresh_cluster (tenant_with_quota (unset_quota\<lparr>Pods := 200\<rparr>))) candidate_request))) =
     [Some (MustParse ''100'')] \<and>
   MustParse ''100'' \<noteq> MustParse ''200''"
  by (simp add: pass_eval fresh_pass unset_quota_def)

text \<open>
  C4, amended. For the Tenant \<open>candidate\<close> whose quota sets pods to 200 and nothing
  else, the ResourceQuota of the pass has every hard limit at the platform default, pods
  100 included: the pass builds its objects from the name of the request and does not
  read the Tenant's quota.
\<close>

theorem pods_override_gets_default:
  assumes "req_Name req = ''candidate''" and "tenants cl ''candidate'' = Some t"
    and "Quota (Spec t) = unset_quota\<lparr>Pods := 200\<rparr>"
  shows "quota_specs (map fst (create_calls c cl req)) =
           (if create_failed (fst (c cl (ns_object ''candidate''))) then []
            else [\<lparr>Hard = [ResourceRequestsCPU \<mapsto> MustParse ''10'',
                           ResourceRequestsMemory \<mapsto> MustParse ''20Gi'',
                           ResourceLimitsCPU \<mapsto> MustParse ''20'',
                           ResourceLimitsMemory \<mapsto> MustParse ''40Gi'',
                           ResourcePods \<mapsto> MustParse ''100'']\<rparr>])"
proof -
  from pass_run [of c req cl] obtain err s' tr where
    run: "create_in_order c (desired_objects (req_Name req)) cl = (err, s', tr)" and
    eqs: "create_calls c cl req = tr"
    by blast
  from run_quota_specs [OF run] eqs assms(1) show ?thesis by simp
qed

text \<open>
  The same Tenant on the cluster: the ResourceQuota submitted has pods 100.
\<close>

theorem pods_override_gets_default_witness:
  "req_Name candidate_request = ''candidate'' \<and>
   tenants (fresh_cluster (tenant_with_quota (unset_quota\<lparr>Pods := 200\<rparr>))) ''candidate'' =
     Some (tenant_with_quota (unset_quota\<lparr>Pods := 200\<rparr>)) \<and>
   Quota (Spec (tenant_with_quota (unset_quota\<lparr>Pods := 200\<rparr>))) = unset_quota\<lparr>Pods := 200\<rparr> \<and>
   map (\<lambda>sp. Hard sp ResourcePods)
     (quota_specs (map fst (create_calls cluster_create
        (fresh_cluster (tenant_with_quota (unset_quota\<lparr>Pods := 200\<rparr>))) candidate_request))) =
     [Some (MustParse ''100'')]"
  using pods_override_gets_default [of candidate_request
      "fresh_cluster (tenant_with_quota (unset_quota\<lparr>Pods := 200\<rparr>))"
      "tenant_with_quota (unset_quota\<lparr>Pods := 200\<rparr>)" cluster_create]
  by (simp add: fresh_cluster_def candidate_request_def tenant_with_quota_def
      cluster_create_def ns_object_def key_of_def create_failed_def)

text \<open>
  C5, as the claim states it, fails: for a Tenant whose quota.cpu is \<open>not-a-number\<close> the
  pass issues all four create calls, each answered nil, and the Tenant's phase afterwards
  is still empty, not Failed.
\<close>

theorem unparsable_quota_counterexample:
  "map_option (CPU \<circ> Quota \<circ> Spec)
     (tenants (fresh_cluster (tenant_with_quota (unset_quota\<lparr>CPU := ''not-a-number''\<rparr>)))
        ''candidate'') = Some ''not-a-number'' \<and>
   map (\<lambda>x. (kind_of (fst x), snd x))
     (create_calls cluster_create
        (fresh_cluster (tenant_with_quota (unset_quota\<lparr>CPU := ''not-a-number''\<rparr>)))
        candidate_request) =
     [(KNamespace, None), (KResourceQuota, None), (KNetworkPolicy, None), (KRoleBinding, None)] \<and>
   map_option (Phase \<circ> Status)
     (tenants (final_store cluster_create
        (fresh_cluster (tenant_with_quota (unset_quota\<lparr>CPU := ''not-a-number''\<rparr>)))
        candidate_request) ''candidate'') = Some '''' \<and>
   '''' \<noteq> ''Failed''"
  by (simp add: pass_eval fresh_pass new_status_def)

text \<open>
  C5, amended. The pass does not validate the Tenant: for every Tenant, whatever its
  quota fields hold (a quantity that does not parse included), the pass issues the
  Namespace create call first and goes on as for any other Tenant, submitting the objects
  built from the name of the request; the Tenant, its status included, is after the pass
  what it was before (on a store whose create leaves the Tenants alone); the result
  returned is the empty \<open>ctrl.Result\<close>, which asks for no requeue; the error returned is
  nil exactly when no create call failed (each succeeded or was answered AlreadyExists);
  and when no create call failed all four kinds were created, in order.
\<close>

theorem unvalidated_spec_is_reconciled:
  assumes "tenants cl (req_Name req) = Some t"
    and "\<forall>s obj. tenants (snd (c s obj)) = tenants s"
  shows "(\<exists>r rest. create_calls c cl req = (ns_object (req_Name req), r) # rest) \<and>
         map fst (create_calls c cl req) =
           take (length (create_calls c cl req)) (desired_objects (req_Name req)) \<and>
         tenants (final_store c cl req) (req_Name req) = Some t \<and>
         returned_result c cl req = \<lparr>Requeue = False, RequeueAfter = 0\<rparr> \<and>
         (returned_error c cl req = None \<longleftrightarrow>
            (\<forall>x \<in> set (create_calls c cl req). \<not> create_failed (snd x))) \<and>
         ((\<forall>x \<in> set (create_calls c cl req). \<not> create_failed (snd x)) \<longrightarrow>
            map (kind_of \<circ> fst) (create_calls c cl req) =
              [KNamespace, KResourceQuota, KNetworkPolicy, KRoleBinding])"
proof -
  from pass_run [of c req cl] obtain err s' tr where
    run: "create_in_order c (desired_objects (req_Name req)) cl = (err, s', tr)" and
    eqs: "returned_error c cl req = err" "final_store c cl req = s'" "create_calls c cl req = tr"
    by blast
  from run_first [OF run] have first: "\<exists>r rest. tr = (ns_object (req_Name req), r) # rest"
    by blast
  note prefix = cio_prefix [OF run]
  have frame: "tenants s' = tenants cl"
    using cio_frame [of tenants c, OF assms(2) run] .
  note iff = cio_error_iff [OF run]
  have all: "(\<forall>x \<in> set tr. \<not> create_failed (snd x)) \<longrightarrow>
      map (kind_of \<circ> fst) tr = [KNamespace, KResourceQuota, KNetworkPolicy, KRoleBinding]"
  proof
    assume "\<forall>x \<in> set tr. \<not> create_failed (snd x)"
    with iff have "err = None" by simp
    with run have "length tr = 4" by (simp add: run_ok_length)
    with cio_kinds [OF run] show "map (kind_of \<circ> fst) tr =
      [KNamespace, KResourceQuota, KNetworkPolicy, KRoleBinding]" by simp
  qed
  have res: "returned_result c cl req = \<lparr>Requeue = False, RequeueAfter = 0\<rparr>"
    by (simp add: returned_result_def Reconcile_result Result_zero_def)
  show ?thesis
    unfolding eqs using first prefix frame iff all res assms(1) by simp
qed

text \<open>
  The Tenant with quota.cpu \<open>not-a-number\<close> on the cluster that a first pass has filled:
  each of the four create calls is answered AlreadyExists, none failed, all four kinds
  are submitted and nil is returned with the empty result.
\<close>

theorem unvalidated_spec_is_reconciled_witness:
  "tenants (final_store cluster_create (fresh_cluster (tenant_with_quota (unset_quota\<lparr>CPU := ''not-a-number''\<rparr>))) candidate_request)
     (req_Name candidate_request) = Some (tenant_with_quota (unset_quota\<lparr>CPU := ''not-a-number''\<rparr>)) \<and>
   map (\<lambda>x. (kind_of (fst x), map_option IsAlreadyExists (snd x)))
     (create_calls cluster_create
        (final_store cluster_create (fresh_cluster (tenant_with_quota (unset_quota\<lparr>CPU := ''not-a-number''\<rparr>))) candidate_request)
        candidate_request) =
     [(KNamespace, Some True), (KResourceQuota, Some True),
      (KNetworkPolicy, Some True), (KRoleBinding, Some True)] \<and>
   returned_error cluster_create
     (final_store cluster_create (fresh_cluster (tenant_with_quota (unset_quota\<lparr>CPU := ''not-a-number''\<rparr>))) candidate_request)
     candidate_request = None \<and>
   returned_result cluster_create
     (final_store cluster_create (fresh_cluster (tenant_with_quota (unset_quota\<lparr>CPU := ''not-a-number''\<rparr>))) candidate_request)
     candidate_request = \<lparr>Requeue = False, RequeueAfter = 0\<rparr>"
  using unvalidated_spec_is_reconciled [of
      "final_store cluster_create (fresh_cluster (tenant_with_quota (unset_quota\<lparr>CPU := ''not-a-number''\<rparr>))) candidate_request"
      candidate_request "tenant_with_quota (unset_quota\<lparr>CPU := ''not-a-number''\<rparr>)" cluster_create]
    cluster_create_tenants
  by (simp add: pass_eval fresh_pass Result_zero_def)

text \<open>
  C6, as the claim states it, fails: on the cluster all four create calls of the pass
  succeed and nil is returned, and the Tenant's status is what it was, with an empty
  phase and the four flags false: no status is written.
\<close>

theorem status_not_written_counterexample:
  "map snd (create_calls cluster_create (fresh_cluster (tenant_with_quota unset_quota))
      candidate_request) = [None, None, None, None] \<and>
   returned_error cluster_create (fresh_cluster (tenant_with_quota unset_quota))
      candidate_request = None \<and>
   map_option Status
     (tenants (final_store cluster_create (fresh_cluster (tenant_with_quota unset_quota))
        candidate_request) ''candidate'') =
     Some \<lparr>Phase = '''', NamespaceCreated = False, QuotaApplied = False,
            NetworkPolicyApplied = False, RBACApplied = False\<rparr> \<and>
   '''' \<noteq> ''Ready''"
  by (simp add: pass_eval fresh_pass new_status_def)

text \<open>
  C6, amended. After a pass in which no create call failed (each succeeded or was
  answered AlreadyExists), the error returned is nil, the result is the empty
  \<open>ctrl.Result\<close>, all four kinds were submitted in order, and no status is written: on a
  store whose create leaves the Tenants alone, every Tenant is what it was before the
  pass.
\<close>

theorem no_status_write_after_success:
  assumes "\<forall>x \<in> set (create_calls c cl req). \<not> create_failed (snd x)"
    and "\<forall>s obj. tenants (snd (c s obj)) = tenants s"
  shows "returned_error c cl req = None \<and>
         returned_result c cl req = \<lparr>Requeue = False, RequeueAfter = 0\<rparr> \<and>
         map (kind_of \<circ> fst) (create_calls c cl req) =
           [KNamespace, KResourceQuota, KNetworkPolicy, KRoleBinding] \<and>
         tenants (final_store c cl req) = tenants cl"
proof -
  from pass_run [of c req cl] obtain err s' tr where
    run: "create_in_order c (desired_objects (req_Name req)) cl = (err, s', tr)" and
    eqs: "returned_error c cl req = err" "final_store c cl req = s'" "create_calls c cl req = tr"
    by blast
  have none: "err = None"
  proof (cases err)
    case None
    then show ?thesis .
  next
    case (Some e)
    with cio_err [of c _ cl e s' tr] run obtain pre obj where
      "\<not> IsAlreadyExists e" "tr = pre @ [(obj, Some e)]" by blast
    then have "(obj, Some e) \<in> set tr" "create_failed (snd (obj, Some e))"
      by (simp_all add: create_failed_def)
    with assms(1) eqs show ?thesis by blast
  qed
  with run have "length tr = 4" by (simp add: run_ok_length)
  with cio_kinds [OF run] have kinds: "map (kind_of \<circ> fst) tr =
      [KNamespace, KResourceQuota, KNetworkPolicy, KRoleBinding]" by simp
  have frame: "tenants s' = tenants cl"
    using cio_frame [of tenants c, OF assms(2) run] .
  have "returned_result c cl req = \<lparr>Requeue = False, RequeueAfter = 0\<rparr>"
    by (simp add: returned_result_def Reconcile_result Result_zero_def)
  with none kinds frame eqs show ?thesis by simp
qed

text \<open>
  The pass on the cluster: no create call fails, and the Tenants are unchanged.
\<close>

theorem no_status_write_after_success_witness:
  "map (create_failed \<circ> snd) (create_calls cluster_create
      (fresh_cluster (tenant_with_quota unset_quota)) candidate_request) =
     [False, False, False, False] \<and>
   tenants (final_store cluster_create (fresh_cluster (tenant_with_quota unset_quota))
      candidate_request) = tenants (fresh_cluster (tenant_with_quota unset_quota)) \<and>
   returned_error cluster_create (fresh_cluster (tenant_with_quota unset_quota))
      candidate_request = None"
  using no_status_write_after_success [of cluster_create
      "fresh_cluster (tenant_with_quota unset_quota)" candidate_request]
    cluster_create_tenants
  by (simp add: pass_eval fresh_pass)

text \<open>
  C7. The first create call of every pass submits a Namespace whose name is the name of
  the request (the Tenant's name), with the labels platform.xyz.com/tenant set to that
  name, istio-injection set to enabled and pod-security.kubernetes.io/enforce set to
  restricted; no other call of the pass submits a Namespace.
\<close>

theorem namespace_named_and_labelled:
  "\<exists>m r rest. create_calls c s req = (NamespaceObj m, r) # rest \<and>
     Name m = req_Name req \<and>
     Labels m ''platform.xyz.com/tenant'' = Some (req_Name req) \<and>
     Labels m ''istio-injection'' = Some ''enabled'' \<and>
     Labels m ''pod-security.kubernetes.io/enforce'' = Some ''restricted'' \<and>
     (\<forall>x \<in> set rest. kind_of (fst x) \<noteq> KNamespace)"
proof -
  from pass_run [of c req s] obtain err s' tr where
    run: "create_in_order c (desired_objects (req_Name req)) s = (err, s', tr)" and
    eqs: "create_calls c s req = tr"
    by blast
  from run_first [OF run] obtain rest where
    tr: "tr = (ns_object (req_Name req), fst (c s (ns_object (req_Name req)))) # rest" and
    others: "\<forall>x \<in> set rest. kind_of (fst x) \<noteq> KNamespace"
    by blast
  show ?thesis
    unfolding eqs tr ns_object_def using others by simp
qed

text \<open>
  On the cluster, the pass for \<open>candidate\<close> submits one Namespace, named candidate.
\<close>

theorem namespace_named_and_labelled_witness:
  "map (map_option Name \<circ> (\<lambda>obj. case obj of NamespaceObj m \<Rightarrow> Some m | _ \<Rightarrow> None) \<circ> fst)
     (create_calls cluster_create (fresh_cluster (tenant_with_quota unset_quota))
        candidate_request) =
     [Some ''candidate'', None, None, None]"
  using namespace_named_and_labelled [of cluster_create
      "fresh_cluster (tenant_with_quota unset_quota)" candidate_request]
  by (simp add: pass_eval fresh_pass)

text \<open>
  C8. A pass issues at most four create calls, no two of the same kind, and uses the
  store in no other way: the store after the pass is the store before it, taken through
  the create calls issued, in order. No read and no write other than those calls is
  made.
\<close>

theorem creates_only_once_per_kind:
  "length (create_calls c s req) \<le> 4 \<and>
   distinct (map (kind_of \<circ> fst) (create_calls c s req)) \<and>
   final_store c s req = foldl (\<lambda>s obj. snd (c s obj)) s (map fst (create_calls c s req))"
proof -
  from pass_run [of c req s] obtain err s' tr where
    run: "create_in_order c (desired_objects (req_Name req)) s = (err, s', tr)" and
    eqs: "final_store c s req = s'" "create_calls c s req = tr"
    by blast
  have len: "length tr \<le> 4"
    using cio_length [OF run] by (simp add: desired_objects_def)
  have "distinct (map (kind_of \<circ> fst) tr)"
    unfolding cio_kinds [OF run] by (rule distinct_take) simp
  with len cio_store [OF run] eqs show ?thesis by simp
qed

text \<open>
  Four calls of four kinds on the cluster; one call with the client that refuses all.
\<close>

theorem creates_only_once_per_kind_witness:
  "map (kind_of \<circ> fst) (create_calls cluster_create
      (fresh_cluster (tenant_with_quota unset_quota)) candidate_request) =
     [KNamespace, KResourceQuota, KNetworkPolicy, KRoleBinding] \<and>
   map (kind_of \<circ> fst) (create_calls refusing_client () candidate_request) = [KNamespace]"
  using creates_only_once_per_kind [of cluster_create
      "fresh_cluster (tenant_with_quota unset_quota)" candidate_request]
  by (simp add: pass_eval fresh_pass refusing_client_def)

text \<open>
  C9. The create calls of a pass depend on the request through its name alone, and on
  the Tenant not at all. Let \<open>R\<close> relate two states of the store that differ only in
  what the pass is not to depend on (the Tenants and their specs: owner, costCenter,
  quota, allowedIntegrations, contacts), such that the store answers a create alike in
  related states and keeps them related. Then two passes from related states, for
  requests with the same name, issue the same create calls with the same answers, return
  the same error and end in related states. The objects submitted are an initial part of
  the four objects built from the name.
\<close>

theorem creates_depend_on_name_only:
  assumes "req_Name r1 = req_Name r2" and "R s1 s2"
    and "\<forall>a b obj. R a b \<longrightarrow>
           fst (c a obj) = fst (c b obj) \<and> R (snd (c a obj)) (snd (c b obj))"
  shows "create_calls c s1 r1 = create_calls c s2 r2 \<and>
         returned_error c s1 r1 = returned_error c s2 r2 \<and>
         R (final_store c s1 r1) (final_store c s2 r2) \<and>
         map fst (create_calls c s1 r1) =
           take (length (create_calls c s1 r1)) (desired_objects (req_Name r1))"
proof -
  let ?objs = "desired_objects (req_Name r1)"
  from pass_run [of c r1 s1] obtain e1 s1' t1 where
    run1: "create_in_order c ?objs s1 = (e1, s1', t1)" and
    eqs1: "returned_error c s1 r1 = e1" "final_store c s1 r1 = s1'" "create_calls c s1 r1 = t1"
    by blast
  from pass_run [of c r2 s2] assms(1) obtain e2 s2' t2 where
    run2: "create_in_order c ?objs s2 = (e2, s2', t2)" and
    eqs2: "returned_error c s2 r2 = e2" "final_store c s2 r2 = s2'" "create_calls c s2 r2 = t2"
    by auto
  note same = cio_related [of R c, OF assms(3) assms(2) run1 run2]
  from same cio_prefix [OF run1] eqs1 eqs2 show ?thesis by simp
qed

text \<open>
  Two clusters with the same child objects whose Tenants differ in their quota, and two
  requests that differ in their namespace: the cluster's create answers alike on both.
\<close>

theorem creates_depend_on_name_only_witness:
  "req_Name candidate_request = req_Name \<lparr>req_Namespace = ''elsewhere'', req_Name = ''candidate''\<rparr> \<and>
   objects (fresh_cluster (tenant_with_quota unset_quota)) =
     objects (fresh_cluster (tenant_with_quota (unset_quota\<lparr>CPU := ''64'', Pods := 200\<rparr>))) \<and>
   tenant_with_quota unset_quota \<noteq>
     tenant_with_quota (unset_quota\<lparr>CPU := ''64'', Pods := 200\<rparr>) \<and>
   create_calls cluster_create (fresh_cluster (tenant_with_quota unset_quota)) candidate_request =
     create_calls cluster_create
       (fresh_cluster (tenant_with_quota (unset_quota\<lparr>CPU := ''64'', Pods := 200\<rparr>)))
       \<lparr>req_Namespace = ''elsewhere'', req_Name = ''candidate''\<rparr> \<and>
   map (kind_of \<circ> fst) (create_calls cluster_create
       (fresh_cluster (tenant_with_quota unset_quota)) candidate_request) =
     [KNamespace, KResourceQuota, KNetworkPolicy, KRoleBinding]"
  using creates_depend_on_name_only [of candidate_request
      "\<lparr>req_Namespace = ''elsewhere'', req_Name = ''candidate''\<rparr>"
      "\<lambda>a b. objects a = objects b"
      "fresh_cluster (tenant_with_quota unset_quota)"
      "fresh_cluster (tenant_with_quota (unset_quota\<lparr>CPU := ''64'', Pods := 200\<rparr>))"
      cluster_create]
    cluster_create_same_objects
  by (simp add: pass_eval fresh_pass unset_quota_def)

text \<open>
  C10. The error returned is not nil exactly when some create call of the pass failed
  (returned an error that is not AlreadyExists). The error returned is then the answer of
  the last call issued, and no call before it failed: it is the first failure. The calls
  issued are an initial part of the order Namespace, ResourceQuota, NetworkPolicy,
  RoleBinding, so no kind after the failed one is created.
\<close>

theorem error_is_first_failure:
  "(returned_error c s req \<noteq> None \<longleftrightarrow>
      (\<exists>x \<in> set (create_calls c s req). create_failed (snd x))) \<and>
   (\<forall>e. returned_error c s req = Some e \<longrightarrow>
      \<not> IsAlreadyExists e \<and>
      (\<exists>pre obj. create_calls c s req = pre @ [(obj, Some e)] \<and>
         (\<forall>x \<in> set pre. \<not> create_failed (snd x)))) \<and>
   map (kind_of \<circ> fst) (create_calls c s req) =
     take (length (create_calls c s req))
       [KNamespace, KResourceQuota, KNetworkPolicy, KRoleBinding]"
proof -
  from pass_run [of c req s] obtain err s' tr where
    run: "create_in_order c (desired_objects (req_Name req)) s = (err, s', tr)" and
    eqs: "returned_error c s req = err" "create_calls c s req = tr"
    by blast
  have iff: "err \<noteq> None \<longleftrightarrow> (\<exists>x \<in> set tr. create_failed (snd x))"
  proof (cases err)
    case None
    with cio_ok [of c _ s s' tr] run show ?thesis by blast
  next
    case (Some e)
    with cio_err [of c _ s e s' tr] run obtain pre obj where
      "\<not> IsAlreadyExists e" "tr = pre @ [(obj, Some e)]" by blast
    then have "(obj, Some e) \<in> set tr" "create_failed (snd (obj, Some e))"
      by (simp_all add: create_failed_def)
    with Some show ?thesis by blast
  qed
  have first: "\<forall>e. err = Some e \<longrightarrow> \<not> IsAlreadyExists e \<and>
      (\<exists>pre obj. tr = pre @ [(obj, Some e)] \<and> (\<forall>x \<in> set pre. \<not> create_failed (snd x)))"
    using cio_err [of c _ s _ s' tr] run by blast
  from iff first cio_kinds [OF run] eqs show ?thesis by simp
qed

text \<open>
  A client that times out on the ResourceQuota: the pass returns the timeout after two
  calls, and the NetworkPolicy and the RoleBinding are not created.
\<close>

theorem error_is_first_failure_witness:
  "returned_error quota_refusing_client () candidate_request = Some (OtherError ''timeout'') \<and>
   map (\<lambda>x. (kind_of (fst x), snd x)) (create_calls quota_refusing_client () candidate_request) =
     [(KNamespace, None), (KResourceQuota, Some (OtherError ''timeout''))] \<and>
   returned_error cluster_create (fresh_cluster (tenant_with_quota unset_quota))
     candidate_request = None"
  using error_is_first_failure [of quota_refusing_client "()" candidate_request]
  by (simp add: pass_eval fresh_pass quota_refusing_client_def)

end
